theory Spec2Isabelle
  imports Complex_Main "HOL-Library.List_Lexorder" "HOL-Library.Char_ord"
    "HOL-Library.Code_Target_Nat"
begin

section \<open>Python strings\<close>

text \<open>
  A Python \<open>str\<close> is modelled as a HOL \<open>string\<close>: the text is read as a sequence of
  code points below 256. The functions below are the \<open>str\<close> methods and operators that
  \<open>convert_assets.py\<close> uses, with the argument order of the method call:
  \<open>startswith s p\<close> is \<open>s.startswith(p)\<close>, \<open>contains s sub\<close> is \<open>sub in s\<close>.
\<close>

definition dquote :: char where
  "dquote = CHR 0x22"

definition backslash :: char where
  "backslash = CHR 0x5C"

definition newline :: char where
  "newline = CHR 0x0A"

fun startswith :: "string \<Rightarrow> string \<Rightarrow> bool" where
  "startswith s [] = True"
| "startswith [] (p # ps) = False"
| "startswith (c # cs) (p # ps) = (c = p \<and> startswith cs ps)"

definition endswith :: "string \<Rightarrow> string \<Rightarrow> bool" where
  "endswith s p = startswith (rev s) (rev p)"

fun contains :: "string \<Rightarrow> string \<Rightarrow> bool" where
  "contains [] sub = (sub = [])"
| "contains (c # cs) sub = (startswith (c # cs) sub \<or> contains cs sub)"

section \<open>External tool runs\<close>

text \<open>
  \<open>subprocess.run(..., capture_output=True, text=True, timeout=30)\<close> either returns a
  completed process (return code, standard output, standard error) or raises (time-out,
  missing executable, undecodable output). The tool itself is a collaborator: the
  functions below take the outcome of the run as their argument.
\<close>

datatype proc_outcome =
  Completed int string string
| Raised string

section \<open>Joint Classifier: \<open>count_real_joints\<close>\<close>

definition node_open :: string where
  "node_open = ''<Node name='' @ [dquote]"

text \<open>
  One attempt of the pattern \<open><Node name="([^"]+)"\<close> at the start of \<open>s\<close>: the literal
  opening, then the longest run of characters other than the double quote, which must be
  non-empty and followed by a double quote. The result is the captured name and the text
  after the match.
\<close>

definition match_node_decl :: "string \<Rightarrow> (string \<times> string) option" where
  "match_node_decl s =
     (if startswith s node_open then
        (let body = drop (length node_open) s;
             name = takeWhile (\<lambda>c. c \<noteq> dquote) body;
             rest = dropWhile (\<lambda>c. c \<noteq> dquote) body
         in if name = [] \<or> rest = [] then None else Some (name, tl rest))
      else None)"

text \<open>
  \<open>re.findall\<close>: scan from the left; after a match the scan resumes behind it, otherwise
  one character further.
\<close>

function findall_node_names :: "string \<Rightarrow> string list" where
  "findall_node_names [] = []"
| "findall_node_names (c # cs) =
     (case match_node_decl (c # cs) of
        Some (name, rest) \<Rightarrow> name # findall_node_names rest
      | None \<Rightarrow> findall_node_names cs)"
  by pat_completeness auto
termination
proof (relation "measure length")
  show "wf (measure length)"
    by simp
next
  fix c cs x2 name rest
  assume "match_node_decl (c # cs) = Some x2" and "(name, rest) = x2"
  then have m: "match_node_decl (c # cs) = Some (name, rest)"
    by simp
  let ?body = "drop (length node_open) (c # cs)"
  from m have r: "rest = tl (dropWhile (\<lambda>c. c \<noteq> dquote) ?body)"
    and ne: "dropWhile (\<lambda>c. c \<noteq> dquote) ?body \<noteq> []"
    by (auto simp: match_node_decl_def Let_def split: if_splits)
  have "length (dropWhile (\<lambda>c. c \<noteq> dquote) ?body) \<le> length ?body"
    by (rule length_dropWhile_le)
  moreover have "length ?body \<le> length (c # cs)"
    by simp
  moreover from ne have "length rest < length (dropWhile (\<lambda>c. c \<noteq> dquote) ?body)"
    by (simp add: r)
  ultimately have "length rest < length (c # cs)"
    by linarith
  then show "(rest, c # cs) \<in> measure length"
    by simp
next
  fix c :: char and cs :: string
  show "(cs, c # cs) \<in> measure length"
    by simp
qed

text \<open>
  The body of the \<open>for name in all_names\<close> loop with its chain of \<open>continue\<close>
  statements; \<open>acc\<close> is the set \<open>real_joints\<close>.
\<close>

fun real_joints_loop :: "string list \<Rightarrow> string set \<Rightarrow> string set" where
  "real_joints_loop [] acc = acc"
| "real_joints_loop (name # names) acc =
     (if contains name ''AssimpFbx'' then real_joints_loop names acc
      else if name \<in> set [''RootNode''] then real_joints_loop names acc
      else if endswith name ''_Geo'' then real_joints_loop names acc
      else if endswith name ''_Att'' then real_joints_loop names acc
      else if contains name ''/'' \<or> contains name [backslash] then real_joints_loop names acc
      else if name = ''Texture'' then real_joints_loop names acc
      else real_joints_loop names (insert name acc))"

text \<open>
  \<open>all_names\<close> is a Python set; the loop visits each distinct name once, here in the
  order of first occurrence.
\<close>

fun count_real_joints :: "proc_outcome \<Rightarrow> int" where
  "count_real_joints (Raised e) = - 1"
| "count_real_joints (Completed returncode stdout stderr) =
     (if returncode \<noteq> 0 then - 1
      else int (card (real_joints_loop (remdups (findall_node_names stdout)) {})))"

section \<open>Metric Parser: \<open>parse_assimp_info\<close>\<close>

subsection \<open>Character classes and numbers\<close>

text \<open>
  For code points below 256, \<open>\s\<close> (and \<open>str.strip\<close>) accepts the characters 9 to 13,
  28 to 32, 133 and 160, and \<open>\d\<close> accepts the ASCII digits only.
\<close>

definition is_space :: "char \<Rightarrow> bool" where
  "is_space c =
     (let n = (of_char c :: nat)
      in (9 \<le> n \<and> n \<le> 13) \<or> (28 \<le> n \<and> n \<le> 32) \<or> n = 133 \<or> n = 160)"

definition is_digit :: "char \<Rightarrow> bool" where
  "is_digit c = (let n = (of_char c :: nat) in 48 \<le> n \<and> n \<le> 57)"

definition digit_val :: "char \<Rightarrow> int" where
  "digit_val c = of_char c - 48"

text \<open>\<open>int(ds)\<close> on a non-empty string of ASCII digits; Python integers are unbounded.\<close>

definition int_of_digits :: "string \<Rightarrow> int" where
  "int_of_digits ds = foldl (\<lambda>acc c. 10 * acc + digit_val c) 0 ds"

fun nat_digits :: "nat \<Rightarrow> string" where
  "nat_digits n =
     (if n < 10 then [char_of (48 + n)]
      else nat_digits (n div 10) @ [char_of (48 + n mod 10)])"

declare nat_digits.simps [simp del]

text \<open>\<open>f"{n}"\<close> for an integer.\<close>

definition fmt_int :: "int \<Rightarrow> string" where
  "fmt_int n = (if n < 0 then ''-'' @ nat_digits (nat (- n)) else nat_digits (nat n))"

fun group3 :: "string \<Rightarrow> string" where
  "group3 (a # b # c # d # ds) = a # b # c # CHR '','' # group3 (d # ds)"
| "group3 ds = ds"

text \<open>\<open>f"{n:,}"\<close>: the decimal digits in groups of three from the right.\<close>

definition fmt_comma :: "int \<Rightarrow> string" where
  "fmt_comma n =
     (if n < 0 then ''-'' @ rev (group3 (rev (nat_digits (nat (- n)))))
      else rev (group3 (rev (nat_digits (nat n)))))"

text \<open>
  \<open>round(x, ndigits)\<close> on a float rounds the exact value of \<open>x\<close> to \<open>ndigits\<close> decimal
  places, ties to the even neighbour. The kilobyte fields are modelled by the decimal
  value that results: every quotient by 1024 that the parser forms is a dyadic rational,
  which a float holds exactly as long as the count is below \<open>2 ^ 53\<close>.
\<close>

definition round_half_even :: "rat \<Rightarrow> int" where
  "round_half_even x =
     (let f = \<lfloor>x\<rfloor>; d = x - of_int f
      in if d < 1 / 2 then f
         else if 1 / 2 < d then f + 1
         else if even f then f else f + 1)"

definition py_round :: "rat \<Rightarrow> nat \<Rightarrow> rat" where
  "py_round x ndigits = of_int (round_half_even (x * 10 ^ ndigits)) / 10 ^ ndigits"

subsection \<open>Labelled scalar fields\<close>

text \<open>
  One attempt of \<open>LABEL\s*(\d+)\<close> at the start of \<open>s\<close>. The two classes are disjoint, so
  the greedy \<open>\s*\<close> takes the whole run of white space and the match succeeds exactly
  when a digit follows it; the capture is the whole run of digits.
\<close>

definition match_label_at :: "string \<Rightarrow> string \<Rightarrow> string option" where
  "match_label_at label s =
     (if startswith s label then
        (let ds = takeWhile is_digit (dropWhile is_space (drop (length label) s))
         in if ds = [] then None else Some ds)
      else None)"

text \<open>\<open>re.search\<close>: the leftmost position at which the pattern matches.\<close>

fun search_label :: "string \<Rightarrow> string \<Rightarrow> string option" where
  "search_label label [] = match_label_at label []"
| "search_label label (c # cs) =
     (case match_label_at label (c # cs) of
        Some ds \<Rightarrow> Some ds
      | None \<Rightarrow> search_label label cs)"

record mesh =
  mesh_name :: string
  mesh_vertices :: int
  mesh_bones :: int
  mesh_faces :: int

record metrics =
  total_vertices :: int
  total_faces :: int
  mesh_count :: int
  node_count :: int
  max_depth :: int
  material_count :: int
  texture_count :: int
  memory_bytes :: int
  vertex_buffer_kb :: rat
  index_buffer_kb :: rat
  bone_matrices_kb :: rat
  total_gpu_memory_kb :: rat
  meshes :: "mesh list"
  warnings :: "string list"

definition initial_metrics :: metrics where
  "initial_metrics =
     \<lparr>total_vertices = 0, total_faces = 0, mesh_count = 0,
      node_count = 0, max_depth = 0, material_count = 0,
      texture_count = 0, memory_bytes = 0,
      vertex_buffer_kb = 0, index_buffer_kb = 0,
      bone_matrices_kb = 0, total_gpu_memory_kb = 0,
      meshes = [], warnings = []\<rparr>"

text \<open>
  One round of the loop over \<open>patterns.items()\<close>: the field is assigned only
  \<open>if match\<close>.
\<close>

definition set_if_found ::
  "string \<Rightarrow> string \<Rightarrow> (int \<Rightarrow> metrics \<Rightarrow> metrics) \<Rightarrow> metrics \<Rightarrow> metrics" where
  "set_if_found label output assign m =
     (case search_label label output of
        None \<Rightarrow> m
      | Some ds \<Rightarrow> assign (int_of_digits ds) m)"

definition parse_scalars :: "string \<Rightarrow> metrics \<Rightarrow> metrics" where
  "parse_scalars output m0 =
     (let m1 = set_if_found ''Memory consumption:'' output (\<lambda>v m. m\<lparr>memory_bytes := v\<rparr>) m0;
          m2 = set_if_found ''Nodes:'' output (\<lambda>v m. m\<lparr>node_count := v\<rparr>) m1;
          m3 = set_if_found ''Maximum depth'' output (\<lambda>v m. m\<lparr>max_depth := v\<rparr>) m2;
          m4 = set_if_found ''Meshes:'' output (\<lambda>v m. m\<lparr>mesh_count := v\<rparr>) m3;
          m5 = set_if_found ''Materials:'' output (\<lambda>v m. m\<lparr>material_count := v\<rparr>) m4;
          m6 = set_if_found ''Textures (embed.):'' output (\<lambda>v m. m\<lparr>texture_count := v\<rparr>) m5;
          m7 = set_if_found ''Vertices:'' output (\<lambda>v m. m\<lparr>total_vertices := v\<rparr>) m6;
          m8 = set_if_found ''Faces:'' output (\<lambda>v m. m\<lparr>total_faces := v\<rparr>) m7
      in m8)"

subsection \<open>Mesh breakdown\<close>

text \<open>
  \<open>re.search(r"Meshes:.*?\n(.*?)(?=Named Materials:|$)", output, re.DOTALL)\<close>: the first
  \<open>Meshes:\<close> that has a line break behind it; group 1 starts after that line break and,
  being lazy, ends at the first position where \<open>Named Materials:\<close> begins or where \<open>$\<close>
  holds (the end of the text, or before a line break that ends the text).
\<close>

fun after_first :: "string \<Rightarrow> string \<Rightarrow> string option" where
  "after_first label [] = (if label = [] then Some [] else None)"
| "after_first label (c # cs) =
     (if startswith (c # cs) label then Some (drop (length label) (c # cs))
      else after_first label cs)"

fun lazy_section :: "string \<Rightarrow> string" where
  "lazy_section [] = []"
| "lazy_section (c # cs) =
     (if startswith (c # cs) ''Named Materials:'' \<or> c # cs = [newline] then []
      else c # lazy_section cs)"

definition mesh_section :: "string \<Rightarrow> string option" where
  "mesh_section output =
     (case after_first ''Meshes:'' output of
        None \<Rightarrow> None
      | Some rest \<Rightarrow>
          (let from_break = dropWhile (\<lambda>c. c \<noteq> newline) rest
           in if from_break = [] then None else Some (lazy_section (tl from_break))))"

definition strip :: "string \<Rightarrow> string" where
  "strip s = rev (dropWhile is_space (rev (dropWhile is_space s)))"

text \<open>\<open>s.split("\n")\<close>.\<close>

fun split_lines :: "string \<Rightarrow> string list" where
  "split_lines [] = [[]]"
| "split_lines (c # cs) =
     (if c = newline then [] # split_lines cs
      else (case split_lines cs of
              l # ls \<Rightarrow> (c # l) # ls
            | [] \<Rightarrow> [[c]]))"

definition expect :: "char \<Rightarrow> string \<Rightarrow> string option" where
  "expect ch s = (case s of c # cs \<Rightarrow> if c = ch then Some cs else None | [] \<Rightarrow> None)"

definition digits1 :: "string \<Rightarrow> (string \<times> string) option" where
  "digits1 s =
     (let ds = takeWhile is_digit s
      in if ds = [] then None else Some (ds, dropWhile is_digit s))"

definition skip_spaces :: "string \<Rightarrow> string" where
  "skip_spaces s = dropWhile is_space s"

text \<open>
  \<open>re.match(r"\s*\d+\s+\(([^)]+)\):\s*\[(\d+)\s*/\s*(\d+)\s*/\s*(\d+)\s*\|", line)\<close>.
  Neighbouring pieces of the pattern accept disjoint characters, so each greedy piece
  takes its whole run and no backtracking can rescue a failed attempt.
\<close>

definition match_mesh_line :: "string \<Rightarrow> mesh option" where
  "match_mesh_line line =
     (case digits1 (skip_spaces line) of
        None \<Rightarrow> None
      | Some (idx, s1) \<Rightarrow>
          if takeWhile is_space s1 = [] then None
          else (case expect CHR ''('' (skip_spaces s1) of
            None \<Rightarrow> None
          | Some s2 \<Rightarrow>
              if takeWhile (\<lambda>c. c \<noteq> CHR '')'') s2 = [] then None
              else (case expect CHR '')'' (dropWhile (\<lambda>c. c \<noteq> CHR '')'') s2) of
                None \<Rightarrow> None
              | Some s3 \<Rightarrow>
                  (case expect CHR '':'' s3 of
                     None \<Rightarrow> None
                   | Some s4 \<Rightarrow>
                       (case expect CHR ''['' (skip_spaces s4) of
                          None \<Rightarrow> None
                        | Some s5 \<Rightarrow>
                            (case digits1 s5 of
                               None \<Rightarrow> None
                             | Some (v, s6) \<Rightarrow>
                                 (case expect CHR ''/'' (skip_spaces s6) of
                                    None \<Rightarrow> None
                                  | Some s7 \<Rightarrow>
                                      (case digits1 (skip_spaces s7) of
                                         None \<Rightarrow> None
                                       | Some (b, s8) \<Rightarrow>
                                           (case expect CHR ''/'' (skip_spaces s8) of
                                              None \<Rightarrow> None
                                            | Some s9 \<Rightarrow>
                                                (case digits1 (skip_spaces s9) of
                                                   None \<Rightarrow> None
                                                 | Some (f, s10) \<Rightarrow>
                                                     (case expect CHR ''|'' (skip_spaces s10) of
                                                        None \<Rightarrow> None
                                                      | Some s11 \<Rightarrow>
                                                          Some \<lparr>mesh_name = takeWhile (\<lambda>c. c \<noteq> CHR '')'') s2,
                                                                mesh_vertices = int_of_digits v,
                                                                mesh_bones = int_of_digits b,
                                                                mesh_faces = int_of_digits f\<rparr>)))))))))))"

definition parse_meshes :: "string \<Rightarrow> mesh list" where
  "parse_meshes output =
     (case mesh_section output of
        None \<Rightarrow> []
      | Some body \<Rightarrow> List.map_filter match_mesh_line (split_lines (strip body)))"

subsection \<open>GPU memory estimate and budget warnings\<close>

definition gpu_estimates :: "metrics \<Rightarrow> metrics" where
  "gpu_estimates m =
     (let vb = total_vertices m * 64;
          ib = total_faces m * 3 * 4;
          bm = node_count m * 64
      in m\<lparr>vertex_buffer_kb := py_round (of_int vb / 1024) 2,
           index_buffer_kb := py_round (of_int ib / 1024) 2,
           bone_matrices_kb := py_round (of_int bm / 1024) 2,
           total_gpu_memory_kb := py_round (of_int (vb + ib + bm) / 1024) 2\<rparr>)"

definition triangle_warning :: "int \<Rightarrow> string" where
  "triangle_warning n = ''HIGH TRIANGLE COUNT: '' @ fmt_comma n @ '' (budget: 15,000)''"

definition vertex_warning :: "int \<Rightarrow> string" where
  "vertex_warning n = ''HIGH VERTEX COUNT: '' @ fmt_comma n @ '' (budget: 20,000)''"

definition material_warning :: "int \<Rightarrow> string" where
  "material_warning n = ''MANY MATERIALS: '' @ fmt_int n @ '' (budget: 5)''"

definition mesh_warning :: "int \<Rightarrow> string" where
  "mesh_warning n = ''MANY MESHES: '' @ fmt_int n @ '' (may cause draw call overhead)''"

definition budget_warnings :: "metrics \<Rightarrow> metrics" where
  "budget_warnings m0 =
     (let m1 = (if total_faces m0 > 15000
                then m0\<lparr>warnings := warnings m0 @ [triangle_warning (total_faces m0)]\<rparr> else m0);
          m2 = (if total_vertices m1 > 20000
                then m1\<lparr>warnings := warnings m1 @ [vertex_warning (total_vertices m1)]\<rparr> else m1);
          m3 = (if material_count m2 > 5
                then m2\<lparr>warnings := warnings m2 @ [material_warning (material_count m2)]\<rparr> else m2);
          m4 = (if mesh_count m3 > 20
                then m3\<lparr>warnings := warnings m3 @ [mesh_warning (mesh_count m3)]\<rparr> else m3)
      in m4)"

definition parse_assimp_info :: "string \<Rightarrow> metrics" where
  "parse_assimp_info output =
     budget_warnings
       (gpu_estimates
          ((parse_scalars output initial_metrics)\<lparr>meshes := parse_meshes output\<rparr>))"

section \<open>Catalog Builder\<close>

subsection \<open>Metrics dictionaries\<close>

text \<open>
  In \<open>main\<close> the metrics of a file are a dictionary that is a pre-computed JSON record,
  the result of \<open>parse_assimp_info\<close> with \<open>real_joint_count\<close> added, or the one-key
  dictionary \<open>{"error": ...}\<close>. It is read with \<open>metrics.get(key, default)\<close> only: each
  field below is \<open>metrics.get(key)\<close>, \<open>None\<close> for an absent key.
\<close>

record metrics_dict =
  get_error :: "string option"
  get_file_size_mb :: "rat option"
  get_total_vertices :: "int option"
  get_total_faces :: "int option"
  get_mesh_count :: "int option"
  get_node_count :: "int option"
  get_real_joint_count :: "int option"
  get_max_depth :: "int option"
  get_material_count :: "int option"
  get_texture_count :: "int option"
  get_memory_bytes :: "int option"
  get_vertex_buffer_kb :: "rat option"
  get_index_buffer_kb :: "rat option"
  get_bone_matrices_kb :: "rat option"
  get_total_gpu_memory_kb :: "rat option"
  get_meshes :: "mesh list option"
  get_warnings :: "string list option"

definition get_or :: "'a option \<Rightarrow> 'a \<Rightarrow> 'a" where
  "get_or v dflt = (case v of None \<Rightarrow> dflt | Some x \<Rightarrow> x)"

definition empty_dict :: metrics_dict where
  "empty_dict =
     \<lparr>get_error = None, get_file_size_mb = None, get_total_vertices = None,
      get_total_faces = None, get_mesh_count = None, get_node_count = None,
      get_real_joint_count = None, get_max_depth = None, get_material_count = None,
      get_texture_count = None, get_memory_bytes = None, get_vertex_buffer_kb = None,
      get_index_buffer_kb = None, get_bone_matrices_kb = None,
      get_total_gpu_memory_kb = None, get_meshes = None, get_warnings = None\<rparr>"

definition dict_of_metrics :: "metrics \<Rightarrow> metrics_dict" where
  "dict_of_metrics m =
     \<lparr>get_error = None, get_file_size_mb = None,
      get_total_vertices = Some (total_vertices m),
      get_total_faces = Some (total_faces m),
      get_mesh_count = Some (mesh_count m),
      get_node_count = Some (node_count m),
      get_real_joint_count = None,
      get_max_depth = Some (max_depth m),
      get_material_count = Some (material_count m),
      get_texture_count = Some (texture_count m),
      get_memory_bytes = Some (memory_bytes m),
      get_vertex_buffer_kb = Some (vertex_buffer_kb m),
      get_index_buffer_kb = Some (index_buffer_kb m),
      get_bone_matrices_kb = Some (bone_matrices_kb m),
      get_total_gpu_memory_kb = Some (total_gpu_memory_kb m),
      get_meshes = Some (meshes m),
      get_warnings = Some (warnings m)\<rparr>"

text \<open>
  \<open>analyze_fbx\<close>: \<open>info\<close> is the outcome of the \<open>assimp info\<close> run, \<open>dump\<close> the outcome of
  the \<open>assimp dump\<close> run that \<open>count_real_joints\<close> starts when the first run succeeded.
\<close>

fun analyze_fbx :: "proc_outcome \<Rightarrow> proc_outcome \<Rightarrow> metrics_dict" where
  "analyze_fbx (Raised e) dump = empty_dict\<lparr>get_error := Some e\<rparr>"
| "analyze_fbx (Completed returncode stdout stderr) dump =
     (if returncode \<noteq> 0 then empty_dict\<lparr>get_error := Some (strip stderr)\<rparr>
      else (dict_of_metrics (parse_assimp_info stdout))
             \<lparr>get_real_joint_count := Some (count_real_joints dump)\<rparr>)"

subsection \<open>Paths\<close>

text \<open>
  An input file is given by its path relative to \<open>AVATAR_DIR\<close> in POSIX form, which is
  what \<open>fbx_path.relative_to(AVATAR_DIR).as_posix()\<close> returns, with at least one
  component.
\<close>

text \<open>\<open>fbx_path.name\<close>: the last component.\<close>

definition path_name :: "string \<Rightarrow> string" where
  "path_name rel = rev (takeWhile (\<lambda>c. c \<noteq> CHR ''/'') (rev rel))"

text \<open>
  \<open>PurePath.stem\<close>: with \<open>i = name.rfind(".")\<close>, the name up to \<open>i\<close> when
  \<open>0 < i < len(name) - 1\<close>, else the whole name.
\<close>

definition rfind_dot :: "string \<Rightarrow> nat option" where
  "rfind_dot name =
     (if CHR ''.'' \<in> set name
      then Some (length name - 1 - length (takeWhile (\<lambda>c. c \<noteq> CHR ''.'') (rev name)))
      else None)"

definition path_stem :: "string \<Rightarrow> string" where
  "path_stem name =
     (case rfind_dot name of
        None \<Rightarrow> name
      | Some i \<Rightarrow> if 0 < i \<and> i + 1 < length name then take i name else name)"

text \<open>\<open>str.lower\<close> on code points below 256.\<close>

definition lower_char :: "char \<Rightarrow> char" where
  "lower_char c =
     (let n = (of_char c :: nat)
      in if (65 \<le> n \<and> n \<le> 90) \<or> (192 \<le> n \<and> n \<le> 222 \<and> n \<noteq> 215)
         then char_of (n + 32) else c)"

definition lower :: "string \<Rightarrow> string" where
  "lower s = map lower_char s"

definition SKIP_PREFIXES :: "string list" where
  "SKIP_PREFIXES = [''cage_deformer/layered_clothing'']"

definition categorize :: "string \<Rightarrow> string" where
  "categorize rel_path =
     (let rel = lower rel_path
      in if startswith rel ''rigs/'' then ''rigs''
         else if startswith rel ''cage_deformer/cube/'' then ''cage_deformers''
         else ''clothing'')"

definition should_skip :: "string \<Rightarrow> bool" where
  "should_skip rel_path =
     (let rel = lower rel_path in list_ex (\<lambda>prefix. startswith rel prefix) SKIP_PREFIXES)"

text \<open>\<open>convert_fbx_to_glb\<close>, given the outcome of the \<open>assimp export\<close> run.\<close>

fun convert_fbx_to_glb :: "proc_outcome \<Rightarrow> bool" where
  "convert_fbx_to_glb (Completed returncode stdout stderr) = (returncode = 0)"
| "convert_fbx_to_glb (Raised e) = False"

definition strip_prefix :: "string \<Rightarrow> string \<Rightarrow> string" where
  "strip_prefix prefix name = (if startswith name prefix then drop (length prefix) name else name)"

definition make_display_name :: "string \<Rightarrow> string" where
  "make_display_name file_name =
     (let name = path_stem file_name;
          name = strip_prefix ''LCL_'' name;
          name = strip_prefix ''LC_'' name
      in map (\<lambda>c. if c = CHR ''_'' then CHR '' '' else c) name)"

subsection \<open>One file: the body of the loop in \<open>main\<close>\<close>

record catalog_entry =
  entry_id :: string
  entry_name :: string
  entry_file :: string
  entry_category :: string
  entry_file_size_mb :: rat
  entry_total_vertices :: int
  entry_total_faces :: int
  entry_mesh_count :: int
  entry_node_count :: int
  entry_real_joint_count :: int
  entry_max_depth :: int
  entry_material_count :: int
  entry_texture_count :: int
  entry_total_gpu_memory_kb :: rat
  entry_vertex_buffer_kb :: rat
  entry_index_buffer_kb :: rat
  entry_bone_matrices_kb :: rat
  entry_meshes :: "mesh list"
  entry_warnings :: "string list"

text \<open>
  The outcomes of the tool runs that the loop body can start for one file: the export,
  the \<open>info\<close> run and the dump inside \<open>analyze_fbx\<close>, and the dump that \<open>main\<close> itself
  starts when the metrics carry no usable joint count.
\<close>

record file_runs =
  export_run :: proc_outcome
  info_run :: proc_outcome
  dump_run_analysis :: proc_outcome
  dump_run_main :: proc_outcome

text \<open>Metrics: pre-computed or fresh analysis.\<close>

definition select_metrics ::
  "(string \<rightharpoonup> metrics_dict) \<Rightarrow> string \<Rightarrow> file_runs \<Rightarrow> metrics_dict" where
  "select_metrics precomputed fname runs =
     (case precomputed fname of
        Some m \<Rightarrow> m
      | None \<Rightarrow> analyze_fbx (info_run runs) (dump_run_analysis runs))"

definition select_real_joints :: "metrics_dict \<Rightarrow> proc_outcome \<Rightarrow> int" where
  "select_real_joints metrics dump =
     (let real_joints = get_or (get_real_joint_count metrics) (- 1)
      in if real_joints < 0 then count_real_joints dump else real_joints)"

definition joint_warning :: "int \<Rightarrow> string" where
  "joint_warning real_joints = ''HIGH JOINT COUNT: '' @ fmt_int real_joints @ '' (budget: 75)''"

text \<open>Rebuild warnings with the joint count.\<close>

definition rebuild_warnings :: "metrics_dict \<Rightarrow> int \<Rightarrow> string list" where
  "rebuild_warnings metrics real_joints =
     (let warnings = filter (\<lambda>w. \<not> contains w ''BONE COUNT'') (get_or (get_warnings metrics) [])
      in if real_joints > 75 then warnings @ [joint_warning real_joints] else warnings)"

definition build_entry ::
  "(string \<rightharpoonup> metrics_dict) \<Rightarrow> string \<Rightarrow> file_runs \<Rightarrow> catalog_entry" where
  "build_entry precomputed fbx_path runs =
     (let category = categorize fbx_path;
          stem = path_stem (path_name fbx_path);
          glb_rel = ''models/'' @ category @ ''/'' @ stem @ ''.glb'';
          fname = path_name fbx_path;
          metrics = select_metrics precomputed fname runs;
          real_joints = select_real_joints metrics (dump_run_main runs);
          warnings = rebuild_warnings metrics real_joints;
          node_count = get_or (get_node_count metrics) 0
      in \<lparr>entry_id = stem,
          entry_name = make_display_name fname,
          entry_file = glb_rel,
          entry_category = category,
          entry_file_size_mb = py_round (get_or (get_file_size_mb metrics) 0) 2,
          entry_total_vertices = get_or (get_total_vertices metrics) 0,
          entry_total_faces = get_or (get_total_faces metrics) 0,
          entry_mesh_count = get_or (get_mesh_count metrics) 0,
          entry_node_count = node_count,
          entry_real_joint_count = real_joints,
          entry_max_depth = get_or (get_max_depth metrics) 0,
          entry_material_count = get_or (get_material_count metrics) 0,
          entry_texture_count = get_or (get_texture_count metrics) 0,
          entry_total_gpu_memory_kb = py_round (get_or (get_total_gpu_memory_kb metrics) 0) 1,
          entry_vertex_buffer_kb = py_round (get_or (get_vertex_buffer_kb metrics) 0) 1,
          entry_index_buffer_kb = py_round (get_or (get_index_buffer_kb metrics) 0) 1,
          entry_bone_matrices_kb = py_round (get_or (get_bone_matrices_kb metrics) 0) 1,
          entry_meshes = get_or (get_meshes metrics) [],
          entry_warnings = warnings\<rparr>)"

subsection \<open>The loop and the manifest\<close>

record manifest_dict =
  rigs :: "catalog_entry list"
  clothing :: "catalog_entry list"
  cage_deformers :: "catalog_entry list"

text \<open>
  \<open>manifest[category].append(entry)\<close>; a category outside the three keys would be a
  \<open>KeyError\<close>, which \<open>categorize\<close> excludes, and leaves the manifest as it is here.
\<close>

definition manifest_append :: "string \<Rightarrow> catalog_entry \<Rightarrow> manifest_dict \<Rightarrow> manifest_dict" where
  "manifest_append category entry m =
     (if category = ''rigs'' then m\<lparr>rigs := rigs m @ [entry]\<rparr>
      else if category = ''clothing'' then m\<lparr>clothing := clothing m @ [entry]\<rparr>
      else if category = ''cage_deformers'' then m\<lparr>cage_deformers := cage_deformers m @ [entry]\<rparr>
      else m)"

record run_state =
  manifest :: manifest_dict
  converted :: nat
  skipped :: nat

definition initial_state :: run_state where
  "initial_state =
     \<lparr>manifest = \<lparr>rigs = [], clothing = [], cage_deformers = []\<rparr>, converted = 0, skipped = 0\<rparr>"

text \<open>
  The loop over \<open>unique_fbx\<close>; each file comes with the outcomes of its tool runs.
\<close>

fun main_loop ::
  "(string \<rightharpoonup> metrics_dict) \<Rightarrow> (string \<times> file_runs) list \<Rightarrow> run_state \<Rightarrow> run_state" where
  "main_loop precomputed [] st = st"
| "main_loop precomputed ((fbx_path, runs) # files) st =
     (if should_skip fbx_path then
        main_loop precomputed files (st\<lparr>skipped := skipped st + 1\<rparr>)
      else if convert_fbx_to_glb (export_run runs) then
        main_loop precomputed files
          (st\<lparr>converted := converted st + 1,
              manifest := manifest_append (categorize fbx_path)
                            (build_entry precomputed fbx_path runs) (manifest st)\<rparr>)
      else main_loop precomputed files st)"

text \<open>\<open>main\<close> from the loop to the sorting of each category by name.\<close>

definition main :: "(string \<rightharpoonup> metrics_dict) \<Rightarrow> (string \<times> file_runs) list \<Rightarrow> run_state" where
  "main precomputed unique_fbx =
     (let st = main_loop precomputed unique_fbx initial_state;
          m = manifest st
      in st\<lparr>manifest := \<lparr>rigs = sort_key entry_name (rigs m),
                          clothing = sort_key entry_name (clothing m),
                          cage_deformers = sort_key entry_name (cage_deformers m)\<rparr>\<rparr>)"

definition all_entries :: "manifest_dict \<Rightarrow> catalog_entry list" where
  "all_entries m = rigs m @ clothing m @ cage_deformers m"

section \<open>Notions of the specification and sample inputs\<close>

text \<open>
  The exclusion rules of the Joint Classifier in the words of the specification: a name
  is excluded when it contains the decomposition-helper marker, is the root-node name,
  ends in the mesh-data suffix or in the attachment-point suffix, contains a path
  separator, or is the literal name \<open>Texture\<close>.
\<close>

definition spec_excluded :: "string \<Rightarrow> bool" where
  "spec_excluded name =
     (contains name ''AssimpFbx'' \<or> name = ''RootNode'' \<or> endswith name ''_Geo''
      \<or> endswith name ''_Att'' \<or> contains name ''/'' \<or> contains name [backslash]
      \<or> name = ''Texture'')"

text \<open>
  A warning about the bone or joint count, as the specification speaks of it: the text of
  the warning names a bone count or a joint count.
\<close>

definition is_joint_warning :: "string \<Rightarrow> bool" where
  "is_joint_warning w = (contains w ''BONE COUNT'' \<or> contains w ''JOINT COUNT'')"

text \<open>A node declaration line of a scene-graph dump, and a dump made of such lines.\<close>

definition node_decl :: "string \<Rightarrow> string" where
  "node_decl name = node_open @ name @ [dquote] @ ''>'' @ [newline]"

definition dump_of :: "string list \<Rightarrow> string" where
  "dump_of names = concat (map node_decl names)"

definition scenario_B_dump :: string where
  "scenario_B_dump =
     dump_of [''Hips'', ''Hips_$AssimpFbxNull$_Translation'', ''Mesh_Geo'', ''RootNode'',
              ''clothing/tex.png'']"

definition scenario_A_text :: string where
  "scenario_A_text =
     ''Vertices: 25000'' @ [newline] @ ''Faces: 16000'' @ [newline] @ ''Materials: 6'' @ [newline]"

text \<open>The same three lines behind an earlier, smaller vertex count.\<close>

definition scenario_A_shadowed :: string where
  "scenario_A_shadowed = ''Vertices: 5'' @ [newline] @ scenario_A_text"

text \<open>Tool runs of a file whose export succeeds and whose other runs all time out.\<close>

definition export_only_runs :: file_runs where
  "export_only_runs =
     \<lparr>export_run = Completed 0 [] [], info_run = Raised ''timeout'',
      dump_run_analysis = Raised ''timeout'', dump_run_main = Raised ''timeout''\<rparr>"

text \<open>The value of a scalar field after the loop over the patterns.\<close>

definition found_or_zero :: "string \<Rightarrow> string \<Rightarrow> int" where
  "found_or_zero label out =
     (case search_label label out of None \<Rightarrow> 0 | Some ds \<Rightarrow> int_of_digits ds)"


text \<open>
  Pre-computed records: one whose warnings hold a bone-count warning of the upstream
  analysis, one whose warnings hold a joint-count warning in the wording of \<open>main\<close>.
\<close>

definition stale_bone_record :: metrics_dict where
  "stale_bone_record =
     empty_dict\<lparr>get_warnings :=
       Some [''HIGH BONE COUNT: 120 (budget: 75)'', ''MANY MATERIALS: 6 (budget: 5)'']\<rparr>"

definition stale_joint_record :: metrics_dict where
  "stale_joint_record =
     empty_dict\<lparr>get_real_joint_count := Some 10,
                get_warnings := Some [''HIGH JOINT COUNT: 200 (budget: 75)'']\<rparr>"

text \<open>Tool runs of a file whose export succeeds and whose dump in \<open>main\<close> is scenario B.\<close>

definition dump_ok_runs :: file_runs where
  "dump_ok_runs = export_only_runs\<lparr>dump_run_main := Completed 0 scenario_B_dump []\<rparr>"


text \<open>Two different input files with the same stem in the same category.\<close>

definition colliding_files :: "(string \<times> file_runs) list" where
  "colliding_files = [(''clothing/a/Shirt.fbx'', export_only_runs), (''clothing/b/Shirt.fbx'', export_only_runs)]"

section \<open>Properties of the Joint Classifier\<close>

lemma real_joints_loop_eq:
  "real_joints_loop names acc = acc \<union> {name \<in> set names. \<not> spec_excluded name}"
  by (induction names arbitrary: acc) (auto simp: spec_excluded_def)

lemma count_real_joints_card:
  "count_real_joints (Completed 0 out err) =
     int (card {name \<in> set (findall_node_names out). \<not> spec_excluded name})"
  by (simp add: real_joints_loop_eq)

lemma scenario_B_names:
  "findall_node_names scenario_B_dump =
     [''Hips'', ''Hips_$AssimpFbxNull$_Translation'', ''Mesh_Geo'', ''RootNode'',
      ''clothing/tex.png'']"
  by code_simp

lemma scenario_B_kept:
  "{name \<in> {''Hips'', ''Hips_$AssimpFbxNull$_Translation'', ''Mesh_Geo'', ''RootNode'',
       ''clothing/tex.png''}. \<not> spec_excluded name} = {''Hips''}"
proof -
  have "\<not> spec_excluded ''Hips''"
    by code_simp
  moreover have "spec_excluded ''Hips_$AssimpFbxNull$_Translation''"
    by code_simp
  moreover have "spec_excluded ''Mesh_Geo''"
    by code_simp
  moreover have "spec_excluded ''RootNode''"
    by code_simp
  moreover have "spec_excluded ''clothing/tex.png''"
    by code_simp
  ultimately show ?thesis
    by auto
qed

text \<open>
  Claim C4. On a dump that was produced (return code 0) the Joint Classifier returns the
  number of distinct names of the node declarations that no exclusion rule of the
  specification removes; a dump whose declarations name exactly \<open>Hips\<close>,
  \<open>Hips_$AssimpFbxNull$_Translation\<close>, \<open>Mesh_Geo\<close>, \<open>RootNode\<close> and
  \<open>clothing/tex.png\<close> has the real joint count 1.
\<close>

theorem count_real_joints_excludes:
  "count_real_joints (Completed 0 out err) =
     int (card {name \<in> set (findall_node_names out). \<not> spec_excluded name})
   \<and> (set (findall_node_names out) =
         {''Hips'', ''Hips_$AssimpFbxNull$_Translation'', ''Mesh_Geo'', ''RootNode'',
          ''clothing/tex.png''}
       \<longrightarrow> count_real_joints (Completed 0 out err) = 1)"
proof (intro conjI impI)
  show "count_real_joints (Completed 0 out err) =
     int (card {name \<in> set (findall_node_names out). \<not> spec_excluded name})"
    by (rule count_real_joints_card)
next
  assume h: "set (findall_node_names out) =
         {''Hips'', ''Hips_$AssimpFbxNull$_Translation'', ''Mesh_Geo'', ''RootNode'',
          ''clothing/tex.png''}"
  show "count_real_joints (Completed 0 out err) = 1"
    unfolding count_real_joints_card h scenario_B_kept by simp
qed

theorem count_real_joints_excludes_witness:
  "set (findall_node_names scenario_B_dump) =
     {''Hips'', ''Hips_$AssimpFbxNull$_Translation'', ''Mesh_Geo'', ''RootNode'',
      ''clothing/tex.png''}
   \<and> count_real_joints (Completed 0 scenario_B_dump []) = 1"
proof -
  have h: "set (findall_node_names scenario_B_dump) =
         {''Hips'', ''Hips_$AssimpFbxNull$_Translation'', ''Mesh_Geo'', ''RootNode'',
          ''clothing/tex.png''}"
    by (simp add: scenario_B_names)
  with count_real_joints_excludes [of scenario_B_dump "[]"] show ?thesis
    by blast
qed



lemma dump_names_repeated:
  "findall_node_names (dump_of [''Hips'', ''Spine'', ''Hips'', ''RootNode'', ''Spine''])
     = [''Hips'', ''Spine'', ''Hips'', ''RootNode'', ''Spine'']"
  by code_simp

lemma dump_names_reordered:
  "findall_node_names (dump_of [''RootNode'', ''Spine'', ''Hips''])
     = [''RootNode'', ''Spine'', ''Hips'']"
  by code_simp

lemma startswith_append: "startswith (p @ s) p"
  by (induction p) auto

lemma match_node_decl_line:
  assumes "name \<noteq> []" and "dquote \<notin> set name"
  shows "match_node_decl (node_open @ name @ dquote # rest) = Some (name, rest)"
proof -
  have t: "takeWhile (\<lambda>c. c \<noteq> dquote) (name @ dquote # rest) = name"
    using assms(2) by (induction name) auto
  have d: "dropWhile (\<lambda>c. c \<noteq> dquote) (name @ dquote # rest) = dquote # rest"
    using assms(2) by (induction name) auto
  show ?thesis
    using assms(1) by (simp add: match_node_decl_def startswith_append t d)
qed

lemma findall_node_decl:
  assumes "name \<noteq> []" and "dquote \<notin> set name"
  shows "findall_node_names (node_decl name @ rest) = name # findall_node_names rest"
proof -
  have open_cons: "node_open = CHR ''<'' # tl node_open"
    by (simp add: node_open_def)
  have "node_decl name @ rest = node_open @ name @ dquote # (''>'' @ [newline] @ rest)"
    by (simp add: node_decl_def)
  then have m: "match_node_decl (node_decl name @ rest) = Some (name, ''>'' @ [newline] @ rest)"
    using match_node_decl_line [OF assms] by simp
  have c: "node_decl name @ rest = CHR ''<'' # (tl node_open @ name @ [dquote] @ ''>'' @ [newline] @ rest)"
    by (simp add: node_decl_def node_open_def)
  have "findall_node_names (node_decl name @ rest)
      = name # findall_node_names (''>'' @ [newline] @ rest)"
    using m unfolding c by simp
  also have "findall_node_names (''>'' @ [newline] @ rest) = findall_node_names rest"
    by (simp add: match_node_decl_def node_open_def newline_def)
  finally show ?thesis .
qed

lemma findall_dump_of:
  "\<forall>name \<in> set names. name \<noteq> [] \<and> dquote \<notin> set name \<Longrightarrow>
     findall_node_names (dump_of names) = names"
proof (induction names)
  case Nil
  then show ?case by (simp add: dump_of_def)
next
  case (Cons name names)
  then have "findall_node_names (dump_of names) = names"
    by simp
  moreover have "dump_of (name # names) = node_decl name @ dump_of names"
    by (simp add: dump_of_def)
  ultimately show ?case
    using Cons.prems by (simp add: findall_node_decl)
qed

lemma reordered_count:
  "count_real_joints (Completed 0 (dump_of [''RootNode'', ''Spine'', ''Hips'']) []) = 2"
  by code_simp

text \<open>
  Claim C8. Two dumps whose node declarations name the same set of names get the same count
  from the Joint Classifier. In particular the dumps written from two lists of names with
  the same elements, in any order and with any repetition, get the same count.
\<close>

theorem count_real_joints_order_invariant:
  "(set (findall_node_names out1) = set (findall_node_names out2) \<longrightarrow>
      count_real_joints (Completed 0 out1 err1) = count_real_joints (Completed 0 out2 err2))
   \<and> ((\<forall>name \<in> set names1 \<union> set names2. name \<noteq> [] \<and> dquote \<notin> set name)
        \<and> set names1 = set names2 \<longrightarrow>
      count_real_joints (Completed 0 (dump_of names1) err1) =
        count_real_joints (Completed 0 (dump_of names2) err2))"
proof (intro conjI impI)
  assume "set (findall_node_names out1) = set (findall_node_names out2)"
  then show "count_real_joints (Completed 0 out1 err1) = count_real_joints (Completed 0 out2 err2)"
    by (simp only: count_real_joints_card)
next
  assume h: "(\<forall>name \<in> set names1 \<union> set names2. name \<noteq> [] \<and> dquote \<notin> set name)
        \<and> set names1 = set names2"
  then have "findall_node_names (dump_of names1) = names1"
    and "findall_node_names (dump_of names2) = names2"
    by (simp_all add: findall_dump_of)
  with h show "count_real_joints (Completed 0 (dump_of names1) err1) =
        count_real_joints (Completed 0 (dump_of names2) err2)"
    by (simp only: count_real_joints_card)
qed

theorem count_real_joints_order_invariant_witness:
  "count_real_joints
     (Completed 0 (dump_of [''Hips'', ''Spine'', ''Hips'', ''RootNode'', ''Spine'']) [])
     = count_real_joints (Completed 0 (dump_of [''RootNode'', ''Spine'', ''Hips'']) [])
   \<and> count_real_joints (Completed 0 (dump_of [''RootNode'', ''Spine'', ''Hips'']) []) = 2"
proof -
  have names: "set (findall_node_names
        (dump_of [''Hips'', ''Spine'', ''Hips'', ''RootNode'', ''Spine'']))
      = set (findall_node_names (dump_of [''RootNode'', ''Spine'', ''Hips'']))"
    unfolding dump_names_repeated dump_names_reordered by auto
  have lists: "(\<forall>name \<in> set [''Hips'', ''Spine'', ''Hips'', ''RootNode'', ''Spine'']
          \<union> set [''RootNode'', ''Spine'', ''Hips'']. name \<noteq> [] \<and> dquote \<notin> set name)
      \<and> set [''Hips'', ''Spine'', ''Hips'', ''RootNode'', ''Spine'']
          = set [''RootNode'', ''Spine'', ''Hips'']"
    by (auto simp: dquote_def)
  note inst = count_real_joints_order_invariant
    [of "dump_of [''Hips'', ''Spine'', ''Hips'', ''RootNode'', ''Spine'']"
      "dump_of [''RootNode'', ''Spine'', ''Hips'']" "[]" "[]"
      "[''Hips'', ''Spine'', ''Hips'', ''RootNode'', ''Spine'']"
      "[''RootNode'', ''Spine'', ''Hips'']"]
  have "count_real_joints
     (Completed 0 (dump_of [''Hips'', ''Spine'', ''Hips'', ''RootNode'', ''Spine'']) [])
     = count_real_joints (Completed 0 (dump_of [''RootNode'', ''Spine'', ''Hips'']) [])"
    using inst [THEN conjunct1] names by (rule mp)
  moreover have "count_real_joints
     (Completed 0 (dump_of [''Hips'', ''Spine'', ''Hips'', ''RootNode'', ''Spine'']) [])
     = count_real_joints (Completed 0 (dump_of [''RootNode'', ''Spine'', ''Hips'']) [])"
    using inst [THEN conjunct2] lists by (rule mp)
  moreover have "count_real_joints (Completed 0 (dump_of [''RootNode'', ''Spine'', ''Hips'']) []) = 2"
    by (rule reordered_count)
  ultimately show ?thesis
    by blast
qed

section \<open>Properties of the Metric Parser\<close>


lemma set_if_found_other:
  "(\<And>v m. f (assign v m) = f m) \<Longrightarrow> f (set_if_found label out assign m) = f m"
  by (simp add: set_if_found_def split: option.split)

lemma set_if_found_this:
  "(\<And>v m. f (assign v m) = v) \<Longrightarrow>
     f (set_if_found label out assign m) =
       (case search_label label out of None \<Rightarrow> f m | Some ds \<Rightarrow> int_of_digits ds)"
  by (simp add: set_if_found_def split: option.split)

lemma parse_scalars_fields:
  "memory_bytes (parse_scalars out initial_metrics) = found_or_zero ''Memory consumption:'' out"
  "node_count (parse_scalars out initial_metrics) = found_or_zero ''Nodes:'' out"
  "max_depth (parse_scalars out initial_metrics) = found_or_zero ''Maximum depth'' out"
  "mesh_count (parse_scalars out initial_metrics) = found_or_zero ''Meshes:'' out"
  "material_count (parse_scalars out initial_metrics) = found_or_zero ''Materials:'' out"
  "texture_count (parse_scalars out initial_metrics) = found_or_zero ''Textures (embed.):'' out"
  "total_vertices (parse_scalars out initial_metrics) = found_or_zero ''Vertices:'' out"
  "total_faces (parse_scalars out initial_metrics) = found_or_zero ''Faces:'' out"
  "warnings (parse_scalars out initial_metrics) = []"
  "meshes (parse_scalars out initial_metrics) = []"
  unfolding parse_scalars_def Let_def found_or_zero_def
  by (simp_all add: set_if_found_other [where f = memory_bytes] set_if_found_this [where f = memory_bytes]
     set_if_found_other [where f = node_count] set_if_found_this [where f = node_count]
     set_if_found_other [where f = max_depth] set_if_found_this [where f = max_depth]
     set_if_found_other [where f = mesh_count] set_if_found_this [where f = mesh_count]
     set_if_found_other [where f = material_count] set_if_found_this [where f = material_count]
     set_if_found_other [where f = texture_count] set_if_found_this [where f = texture_count]
     set_if_found_other [where f = total_vertices] set_if_found_this [where f = total_vertices]
     set_if_found_other [where f = total_faces] set_if_found_this [where f = total_faces]
     set_if_found_other [where f = warnings] set_if_found_other [where f = meshes]
     initial_metrics_def split: option.split)

lemma budget_warnings_fields:
  "memory_bytes (budget_warnings m) = memory_bytes m"
  "node_count (budget_warnings m) = node_count m"
  "max_depth (budget_warnings m) = max_depth m"
  "mesh_count (budget_warnings m) = mesh_count m"
  "material_count (budget_warnings m) = material_count m"
  "texture_count (budget_warnings m) = texture_count m"
  "total_vertices (budget_warnings m) = total_vertices m"
  "total_faces (budget_warnings m) = total_faces m"
  "vertex_buffer_kb (budget_warnings m) = vertex_buffer_kb m"
  "index_buffer_kb (budget_warnings m) = index_buffer_kb m"
  "bone_matrices_kb (budget_warnings m) = bone_matrices_kb m"
  "total_gpu_memory_kb (budget_warnings m) = total_gpu_memory_kb m"
  "meshes (budget_warnings m) = meshes m"
  by (simp_all add: budget_warnings_def Let_def)

lemma budget_warnings_list:
  "warnings (budget_warnings m) =
     warnings m
     @ (if total_faces m > 15000 then [triangle_warning (total_faces m)] else [])
     @ (if total_vertices m > 20000 then [vertex_warning (total_vertices m)] else [])
     @ (if material_count m > 5 then [material_warning (material_count m)] else [])
     @ (if mesh_count m > 20 then [mesh_warning (mesh_count m)] else [])"
  by (simp add: budget_warnings_def Let_def)

lemma gpu_estimates_fields:
  "memory_bytes (gpu_estimates m) = memory_bytes m"
  "node_count (gpu_estimates m) = node_count m"
  "max_depth (gpu_estimates m) = max_depth m"
  "mesh_count (gpu_estimates m) = mesh_count m"
  "material_count (gpu_estimates m) = material_count m"
  "texture_count (gpu_estimates m) = texture_count m"
  "total_vertices (gpu_estimates m) = total_vertices m"
  "total_faces (gpu_estimates m) = total_faces m"
  "meshes (gpu_estimates m) = meshes m"
  "warnings (gpu_estimates m) = warnings m"
  "vertex_buffer_kb (gpu_estimates m) = py_round (of_int (total_vertices m * 64) / 1024) 2"
  "index_buffer_kb (gpu_estimates m) = py_round (of_int (total_faces m * 3 * 4) / 1024) 2"
  "bone_matrices_kb (gpu_estimates m) = py_round (of_int (node_count m * 64) / 1024) 2"
  "total_gpu_memory_kb (gpu_estimates m) =
     py_round (of_int (total_vertices m * 64 + total_faces m * 3 * 4 + node_count m * 64) / 1024) 2"
  by (simp_all add: gpu_estimates_def Let_def)














lemma parse_warnings:
  "warnings (parse_assimp_info out) =
     (if 15000 < total_faces (parse_assimp_info out)
      then [triangle_warning (total_faces (parse_assimp_info out))] else [])
     @ (if 20000 < total_vertices (parse_assimp_info out)
        then [vertex_warning (total_vertices (parse_assimp_info out))] else [])
     @ (if 5 < material_count (parse_assimp_info out)
        then [material_warning (material_count (parse_assimp_info out))] else [])
     @ (if 20 < mesh_count (parse_assimp_info out)
        then [mesh_warning (mesh_count (parse_assimp_info out))] else [])"
  by (simp add: parse_assimp_info_def budget_warnings_list budget_warnings_fields
      gpu_estimates_fields parse_scalars_fields)

lemma scenario_A_strings:
  "triangle_warning 16000 = ''HIGH TRIANGLE COUNT: 16,000 (budget: 15,000)''"
  "vertex_warning 25000 = ''HIGH VERTEX COUNT: 25,000 (budget: 20,000)''"
  "material_warning 6 = ''MANY MATERIALS: 6 (budget: 5)''"
  by code_simp+

text \<open>
  Claim C2. The parser appends its budget warnings in the order triangle count, vertex
  count, materials, meshes. A text that it reads as 25000 vertices, 16000 faces, 6 materials
  and at most 20 meshes gets exactly three warnings: high triangle count, high vertex
  count, many materials, in this order.
\<close>

theorem parse_warnings_order:
  "warnings (parse_assimp_info out) =
     (if 15000 < total_faces (parse_assimp_info out)
      then [triangle_warning (total_faces (parse_assimp_info out))] else [])
     @ (if 20000 < total_vertices (parse_assimp_info out)
        then [vertex_warning (total_vertices (parse_assimp_info out))] else [])
     @ (if 5 < material_count (parse_assimp_info out)
        then [material_warning (material_count (parse_assimp_info out))] else [])
     @ (if 20 < mesh_count (parse_assimp_info out)
        then [mesh_warning (mesh_count (parse_assimp_info out))] else [])
   \<and> (total_vertices (parse_assimp_info out) = 25000
        \<and> total_faces (parse_assimp_info out) = 16000
        \<and> material_count (parse_assimp_info out) = 6
        \<and> mesh_count (parse_assimp_info out) \<le> 20
       \<longrightarrow> warnings (parse_assimp_info out) =
             [''HIGH TRIANGLE COUNT: 16,000 (budget: 15,000)'',
              ''HIGH VERTEX COUNT: 25,000 (budget: 20,000)'',
              ''MANY MATERIALS: 6 (budget: 5)''])"
proof (intro conjI impI)
  show "warnings (parse_assimp_info out) =
     (if 15000 < total_faces (parse_assimp_info out)
      then [triangle_warning (total_faces (parse_assimp_info out))] else [])
     @ (if 20000 < total_vertices (parse_assimp_info out)
        then [vertex_warning (total_vertices (parse_assimp_info out))] else [])
     @ (if 5 < material_count (parse_assimp_info out)
        then [material_warning (material_count (parse_assimp_info out))] else [])
     @ (if 20 < mesh_count (parse_assimp_info out)
        then [mesh_warning (mesh_count (parse_assimp_info out))] else [])"
    by (rule parse_warnings)
next
  assume h: "total_vertices (parse_assimp_info out) = 25000
        \<and> total_faces (parse_assimp_info out) = 16000
        \<and> material_count (parse_assimp_info out) = 6
        \<and> mesh_count (parse_assimp_info out) \<le> 20"
  show "warnings (parse_assimp_info out) =
             [''HIGH TRIANGLE COUNT: 16,000 (budget: 15,000)'',
              ''HIGH VERTEX COUNT: 25,000 (budget: 20,000)'',
              ''MANY MATERIALS: 6 (budget: 5)'']"
    using h by (subst parse_warnings) (simp add: scenario_A_strings)
qed

lemma scenario_A_fields:
  "total_vertices (parse_assimp_info scenario_A_text) = 25000"
  "total_faces (parse_assimp_info scenario_A_text) = 16000"
  "material_count (parse_assimp_info scenario_A_text) = 6"
  "mesh_count (parse_assimp_info scenario_A_text) = 0"
  by code_simp+

theorem parse_warnings_order_witness:
  "warnings (parse_assimp_info scenario_A_text) =
     [''HIGH TRIANGLE COUNT: 16,000 (budget: 15,000)'',
      ''HIGH VERTEX COUNT: 25,000 (budget: 20,000)'',
      ''MANY MATERIALS: 6 (budget: 5)'']"
  using parse_warnings_order [of scenario_A_text, THEN conjunct2]
  by (simp add: scenario_A_fields)

lemma scenario_A_shadowed_warnings:
  "warnings (parse_assimp_info scenario_A_shadowed) =
     [''HIGH TRIANGLE COUNT: 16,000 (budget: 15,000)'', ''MANY MATERIALS: 6 (budget: 5)'']"
  by code_simp

lemma scenario_A_warnings:
  "warnings (parse_assimp_info scenario_A_text) =
     [''HIGH TRIANGLE COUNT: 16,000 (budget: 15,000)'',
      ''HIGH VERTEX COUNT: 25,000 (budget: 20,000)'',
      ''MANY MATERIALS: 6 (budget: 5)'']"
  by code_simp

lemma scenario_A_shadowed_contains:
  "contains scenario_A_shadowed ''Vertices: 25000''"
  "contains scenario_A_shadowed ''Faces: 16000''"
  "contains scenario_A_shadowed ''Materials: 6''"
  by code_simp+

text \<open>
  The order with the vertex warning first does not occur, and a text can contain the
  three lines of the scenario while an earlier line decides the vertex count.
\<close>

theorem scenario_A_order_counterexample:
  "warnings (parse_assimp_info scenario_A_text) \<noteq>
     [''HIGH VERTEX COUNT: 25,000 (budget: 20,000)'',
      ''HIGH TRIANGLE COUNT: 16,000 (budget: 15,000)'',
      ''MANY MATERIALS: 6 (budget: 5)'']
   \<and> contains scenario_A_shadowed ''Vertices: 25000''
   \<and> contains scenario_A_shadowed ''Faces: 16000''
   \<and> contains scenario_A_shadowed ''Materials: 6''
   \<and> length (warnings (parse_assimp_info scenario_A_shadowed)) = 2"
  by (simp add: scenario_A_warnings scenario_A_shadowed_warnings scenario_A_shadowed_contains)

section \<open>Properties of the Catalog Builder\<close>

lemma startswith_set: "startswith s p \<Longrightarrow> set p \<subseteq> set s"
  by (induction s p rule: startswith.induct) auto

lemma contains_set: "contains s sub \<Longrightarrow> set sub \<subseteq> set s"
proof (induction s)
  case Nil
  then show ?case by simp
next
  case (Cons c cs)
  from Cons.prems have "startswith (c # cs) sub \<or> contains cs sub"
    by simp
  then show ?case
  proof
    assume "startswith (c # cs) sub"
    then show ?thesis by (rule startswith_set)
  next
    assume "contains cs sub"
    then have "set sub \<subseteq> set cs" by (rule Cons.IH)
    then show ?thesis by auto
  qed
qed

lemma nat_digits_is_digit: "c \<in> set (nat_digits n) \<Longrightarrow> is_digit c"
proof (induction n rule: nat_digits.induct)
  case (1 n)
  show ?case
  proof (cases "n < 10")
    case True
    with "1.prems" show ?thesis
      by (simp add: nat_digits.simps [of n] is_digit_def)
  next
    case False
    have "n mod 10 < 10" by simp
    with False "1.prems" "1.IH" show ?thesis
      by (auto simp: nat_digits.simps [of n] is_digit_def)
  qed
qed

lemma joint_warning_no_B: "CHR ''B'' \<notin> set (joint_warning n)"
proof -
  have "\<not> is_digit CHR ''B''"
    by (simp add: is_digit_def)
  then have "CHR ''B'' \<notin> set (nat_digits k)" for k
    using nat_digits_is_digit by blast
  then show ?thesis
    by (simp add: joint_warning_def fmt_int_def)
qed

lemma joint_warning_not_bone: "\<not> contains (joint_warning n) ''BONE COUNT''"
proof
  assume "contains (joint_warning n) ''BONE COUNT''"
  then have "set ''BONE COUNT'' \<subseteq> set (joint_warning n)"
    by (rule contains_set)
  then show False
    using joint_warning_no_B [of n] by simp
qed

lemma joint_warning_is_joint: "contains (joint_warning n) ''JOINT COUNT''"
  by (simp add: joint_warning_def)

lemma rebuild_warnings_eq:
  "rebuild_warnings metrics rj =
     filter (\<lambda>w. \<not> contains w ''BONE COUNT'') (get_or (get_warnings metrics) [])
     @ (if 75 < rj then [joint_warning rj] else [])"
  by (simp add: rebuild_warnings_def Let_def)

text \<open>
  Claim C1. The final warnings of an entry are the upstream warnings without those that
  contain \<open>BONE COUNT\<close>, followed by one joint-count warning exactly when the joint count
  is above 75. No final warning contains \<open>BONE COUNT\<close>, and when no upstream warning
  contains \<open>JOINT COUNT\<close> the only joint-count warning of the final list is the one
  computed from the joint count of the entry.
\<close>

theorem rebuild_warnings_joint:
  "rebuild_warnings metrics rj =
     filter (\<lambda>w. \<not> contains w ''BONE COUNT'') (get_or (get_warnings metrics) [])
     @ (if 75 < rj then [joint_warning rj] else [])
   \<and> (\<forall>w \<in> set (rebuild_warnings metrics rj). \<not> contains w ''BONE COUNT'')
   \<and> ((\<forall>w \<in> set (get_or (get_warnings metrics) []). \<not> contains w ''JOINT COUNT'') \<longrightarrow>
        filter is_joint_warning (rebuild_warnings metrics rj) =
          (if 75 < rj then [joint_warning rj] else []))
   \<and> entry_warnings (build_entry precomputed fbx_path runs) =
        rebuild_warnings (select_metrics precomputed (path_name fbx_path) runs)
          (entry_real_joint_count (build_entry precomputed fbx_path runs))"
proof (intro conjI impI)
  show "rebuild_warnings metrics rj =
     filter (\<lambda>w. \<not> contains w ''BONE COUNT'') (get_or (get_warnings metrics) [])
     @ (if 75 < rj then [joint_warning rj] else [])"
    by (rule rebuild_warnings_eq)
next
  show "\<forall>w \<in> set (rebuild_warnings metrics rj). \<not> contains w ''BONE COUNT''"
    by (auto simp: rebuild_warnings_eq joint_warning_not_bone)
next
  assume h: "\<forall>w \<in> set (get_or (get_warnings metrics) []). \<not> contains w ''JOINT COUNT''"
  have "filter is_joint_warning
          (filter (\<lambda>w. \<not> contains w ''BONE COUNT'') (get_or (get_warnings metrics) [])) = []"
    using h by (auto simp: filter_empty_conv is_joint_warning_def)
  moreover have "is_joint_warning (joint_warning rj)"
    by (simp add: is_joint_warning_def joint_warning_is_joint)
  ultimately show "filter is_joint_warning (rebuild_warnings metrics rj) =
          (if 75 < rj then [joint_warning rj] else [])"
    by (simp add: rebuild_warnings_eq)
next
  show "entry_warnings (build_entry precomputed fbx_path runs) =
        rebuild_warnings (select_metrics precomputed (path_name fbx_path) runs)
          (entry_real_joint_count (build_entry precomputed fbx_path runs))"
    by (simp add: build_entry_def Let_def)
qed

lemma stale_bone_rebuilt:
  "rebuild_warnings stale_bone_record 80 =
     [''MANY MATERIALS: 6 (budget: 5)'', ''HIGH JOINT COUNT: 80 (budget: 75)'']"
  by code_simp

lemma stale_bone_no_joint:
  "\<forall>w \<in> set (get_or (get_warnings stale_bone_record) []). \<not> contains w ''JOINT COUNT''"
  by (simp add: stale_bone_record_def get_or_def)

lemma joint_warning_80: "joint_warning 80 = ''HIGH JOINT COUNT: 80 (budget: 75)''"
  by code_simp

theorem rebuild_warnings_joint_witness:
  "rebuild_warnings stale_bone_record 80 =
     [''MANY MATERIALS: 6 (budget: 5)'', ''HIGH JOINT COUNT: 80 (budget: 75)'']
   \<and> filter is_joint_warning (rebuild_warnings stale_bone_record 80) =
       [''HIGH JOINT COUNT: 80 (budget: 75)'']"
  using rebuild_warnings_joint [of stale_bone_record 80] stale_bone_no_joint
  by (simp add: stale_bone_rebuilt joint_warning_80)

lemma stale_joint_entry:
  "entry_real_joint_count
     (build_entry [''Shirt.fbx'' \<mapsto> stale_joint_record] ''clothing/Shirt.fbx'' export_only_runs) = 10"
  "entry_warnings
     (build_entry [''Shirt.fbx'' \<mapsto> stale_joint_record] ''clothing/Shirt.fbx'' export_only_runs) =
     [''HIGH JOINT COUNT: 200 (budget: 75)'']"
  by code_simp+

lemma stale_joint_rebuilt:
  "rebuild_warnings stale_joint_record 80 =
     [''HIGH JOINT COUNT: 200 (budget: 75)'', ''HIGH JOINT COUNT: 80 (budget: 75)'']"
  by code_simp

lemma stale_joint_kept:
  "is_joint_warning ''HIGH JOINT COUNT: 200 (budget: 75)''"
  "is_joint_warning ''HIGH JOINT COUNT: 80 (budget: 75)''"
  by code_simp+

text \<open>
  An upstream warning in the wording \<open>HIGH JOINT COUNT\<close> passes the filter: a trusted
  pre-computed joint count of 10 leaves the stale warning for 200 joints in the entry, and
  a joint count of 80 gives two joint-count warnings.
\<close>

theorem stale_joint_warning_counterexample:
  "entry_real_joint_count
     (build_entry [''Shirt.fbx'' \<mapsto> stale_joint_record] ''clothing/Shirt.fbx'' export_only_runs) = 10
   \<and> entry_warnings
       (build_entry [''Shirt.fbx'' \<mapsto> stale_joint_record] ''clothing/Shirt.fbx'' export_only_runs) =
       [''HIGH JOINT COUNT: 200 (budget: 75)'']
   \<and> filter is_joint_warning (rebuild_warnings stale_joint_record 80) =
       [''HIGH JOINT COUNT: 200 (budget: 75)'', ''HIGH JOINT COUNT: 80 (budget: 75)'']"
  by (simp add: stale_joint_entry stale_joint_rebuilt stale_joint_kept)

lemma build_entry_joints:
  "entry_real_joint_count (build_entry precomputed fbx_path runs) =
     select_real_joints (select_metrics precomputed (path_name fbx_path) runs) (dump_run_main runs)"
  by (simp add: build_entry_def Let_def)


lemma shirt_name: "path_name ''clothing/Shirt.fbx'' = ''Shirt.fbx''"
  by code_simp

lemma scenario_B_count: "count_real_joints (Completed 0 scenario_B_dump []) = 1"
  by code_simp

text \<open>
  Claim C7. The base metrics of a file are the pre-computed record stored under its file
  name when there is one, and the fresh analysis otherwise; the joint count of the entry
  is the value of the base record when that value is present and not negative, and the
  count that the Joint Classifier computes from a new dump otherwise.
\<close>

theorem metrics_source_selection:
  "(precomputed (path_name fbx_path) = Some record \<longrightarrow>
      select_metrics precomputed (path_name fbx_path) runs = record)
   \<and> (precomputed (path_name fbx_path) = None \<longrightarrow>
      select_metrics precomputed (path_name fbx_path) runs =
        analyze_fbx (info_run runs) (dump_run_analysis runs))
   \<and> entry_real_joint_count (build_entry precomputed fbx_path runs) =
       (case get_real_joint_count (select_metrics precomputed (path_name fbx_path) runs) of
          Some n \<Rightarrow> if 0 \<le> n then n else count_real_joints (dump_run_main runs)
        | None \<Rightarrow> count_real_joints (dump_run_main runs))"
  by (auto simp: select_metrics_def build_entry_joints select_real_joints_def get_or_def Let_def
      split: option.split)

theorem metrics_source_selection_witness:
  "select_metrics [''Shirt.fbx'' \<mapsto> stale_joint_record] (path_name ''clothing/Shirt.fbx'')
     dump_ok_runs = stale_joint_record
   \<and> entry_real_joint_count
       (build_entry [''Shirt.fbx'' \<mapsto> stale_joint_record] ''clothing/Shirt.fbx'' dump_ok_runs) = 10
   \<and> select_metrics Map.empty (path_name ''clothing/Shirt.fbx'') dump_ok_runs =
       analyze_fbx (info_run dump_ok_runs) (dump_run_analysis dump_ok_runs)
   \<and> entry_real_joint_count (build_entry Map.empty ''clothing/Shirt.fbx'' dump_ok_runs) = 1"
proof -
  have some: "[''Shirt.fbx'' \<mapsto> stale_joint_record] (path_name ''clothing/Shirt.fbx'')
      = Some stale_joint_record"
    by (simp add: shirt_name)
  have none: "(Map.empty :: string \<rightharpoonup> metrics_dict) (path_name ''clothing/Shirt.fbx'') = None"
    by simp
  note pre = metrics_source_selection
    [of "[''Shirt.fbx'' \<mapsto> stale_joint_record]" "''clothing/Shirt.fbx''" stale_joint_record
      dump_ok_runs]
  note fresh = metrics_source_selection
    [of Map.empty "''clothing/Shirt.fbx''" stale_joint_record dump_ok_runs]
  from pre some have p1: "select_metrics [''Shirt.fbx'' \<mapsto> stale_joint_record]
      (path_name ''clothing/Shirt.fbx'') dump_ok_runs = stale_joint_record"
    by blast
  from pre have p2: "entry_real_joint_count
       (build_entry [''Shirt.fbx'' \<mapsto> stale_joint_record] ''clothing/Shirt.fbx'' dump_ok_runs) = 10"
    unfolding p1 by (simp add: stale_joint_record_def empty_dict_def)
  from fresh none have f1: "select_metrics Map.empty (path_name ''clothing/Shirt.fbx'') dump_ok_runs =
       analyze_fbx (info_run dump_ok_runs) (dump_run_analysis dump_ok_runs)"
    by blast
  have g: "get_real_joint_count
      (analyze_fbx (info_run dump_ok_runs) (dump_run_analysis dump_ok_runs)) = None"
    by (simp add: dump_ok_runs_def export_only_runs_def empty_dict_def)
  have "dump_run_main dump_ok_runs = Completed 0 scenario_B_dump []"
    by (simp add: dump_ok_runs_def export_only_runs_def)
  then have c: "count_real_joints (dump_run_main dump_ok_runs) = 1"
    by (simp only: scenario_B_count)
  from fresh have f2: "entry_real_joint_count
      (build_entry Map.empty ''clothing/Shirt.fbx'' dump_ok_runs) = 1"
    unfolding f1 by (simp add: g c)
  from p1 p2 f1 f2 show ?thesis
    by blast
qed

lemma count_real_joints_failed:
  "count_real_joints dump = - 1 \<longleftrightarrow> (\<forall>out err. dump \<noteq> Completed 0 out err)"
  by (cases dump) auto





lemma categorize_cases:
  "categorize p = ''rigs'' \<or> categorize p = ''clothing'' \<or> categorize p = ''cage_deformers''"
  by (simp add: categorize_def Let_def)

lemma manifest_append_entries:
  "set (all_entries (manifest_append (categorize p) e m)) = insert e (set (all_entries m))"
  using categorize_cases [of p] by (auto simp: manifest_append_def all_entries_def)

lemma main_loop_entries:
  "set (all_entries (manifest (main_loop precomputed files st))) =
     set (all_entries (manifest st))
     \<union> {build_entry precomputed p r | p r.
          (p, r) \<in> set files \<and> \<not> should_skip p \<and> convert_fbx_to_glb (export_run r)}"
proof (induction files arbitrary: st)
  case Nil
  then show ?case by simp
next
  case (Cons f files)
  obtain p r where f: "f = (p, r)"
    by (cases f)
  show ?case
    unfolding f by (auto simp: Cons.IH manifest_append_entries)
qed

lemma main_entries:
  "set (all_entries (manifest (main precomputed files))) =
     {build_entry precomputed p r | p r.
        (p, r) \<in> set files \<and> \<not> should_skip p \<and> convert_fbx_to_glb (export_run r)}"
proof -
  have "set (all_entries (manifest (main precomputed files))) =
      set (all_entries (manifest (main_loop precomputed files initial_state)))"
    by (simp add: main_def Let_def all_entries_def)
  also have "\<dots> = {build_entry precomputed p r | p r.
        (p, r) \<in> set files \<and> \<not> should_skip p \<and> convert_fbx_to_glb (export_run r)}"
    unfolding main_loop_entries by (simp add: initial_state_def all_entries_def)
  finally show ?thesis .
qed

text \<open>
  Claim C10. The entry of a file has the stem of the file as its id and
  \<open>models/<category>/<id>.glb\<close> as its file; every file that is not skipped and whose
  conversion succeeds has its entry in the manifest; so two files with the same stem and
  category get entries with the same id and the same output path.
\<close>

theorem entry_id_and_file:
  "entry_id (build_entry precomputed p r) = path_stem (path_name p)
   \<and> entry_file (build_entry precomputed p r) =
       ''models/'' @ categorize p @ ''/'' @ entry_id (build_entry precomputed p r) @ ''.glb''
   \<and> ((p, r) \<in> set files \<and> \<not> should_skip p \<and> convert_fbx_to_glb (export_run r) \<longrightarrow>
        build_entry precomputed p r \<in> set (all_entries (manifest (main precomputed files))))
   \<and> (path_stem (path_name p) = path_stem (path_name p') \<and> categorize p = categorize p' \<longrightarrow>
        entry_id (build_entry precomputed p r) = entry_id (build_entry precomputed p' r')
        \<and> entry_file (build_entry precomputed p r) = entry_file (build_entry precomputed p' r'))"
proof -
  have "entry_id (build_entry precomputed p r) = path_stem (path_name p)" for p r
    by (simp add: build_entry_def Let_def)
  moreover have "entry_file (build_entry precomputed p r) =
       ''models/'' @ categorize p @ ''/'' @ path_stem (path_name p) @ ''.glb''" for p r
    by (simp add: build_entry_def Let_def)
  moreover have "(p, r) \<in> set files \<and> \<not> should_skip p \<and> convert_fbx_to_glb (export_run r) \<longrightarrow>
        build_entry precomputed p r \<in> set (all_entries (manifest (main precomputed files)))"
    unfolding main_entries by blast
  ultimately show ?thesis
    by simp
qed

lemma colliding_facts:
  "path_stem (path_name ''clothing/a/Shirt.fbx'') = ''Shirt''"
  "path_stem (path_name ''clothing/b/Shirt.fbx'') = ''Shirt''"
  "categorize ''clothing/a/Shirt.fbx'' = ''clothing''"
  "categorize ''clothing/b/Shirt.fbx'' = ''clothing''"
  "\<not> should_skip ''clothing/a/Shirt.fbx''"
  "convert_fbx_to_glb (export_run export_only_runs)"
  by code_simp+

lemma colliding_manifest:
  "map entry_file (clothing (manifest (main Map.empty colliding_files))) =
     [''models/clothing/Shirt.glb'', ''models/clothing/Shirt.glb'']"
  "map entry_id (clothing (manifest (main Map.empty colliding_files))) = [''Shirt'', ''Shirt'']"
  "converted (main Map.empty colliding_files) = 2"
  by code_simp+

theorem entry_id_and_file_witness:
  "''clothing/a/Shirt.fbx'' \<noteq> ''clothing/b/Shirt.fbx''
   \<and> build_entry Map.empty ''clothing/a/Shirt.fbx'' export_only_runs
       \<in> set (all_entries (manifest (main Map.empty colliding_files)))
   \<and> entry_id (build_entry Map.empty ''clothing/a/Shirt.fbx'' export_only_runs) =
       entry_id (build_entry Map.empty ''clothing/b/Shirt.fbx'' export_only_runs)
   \<and> entry_file (build_entry Map.empty ''clothing/a/Shirt.fbx'' export_only_runs) =
       entry_file (build_entry Map.empty ''clothing/b/Shirt.fbx'' export_only_runs)
   \<and> map entry_file (clothing (manifest (main Map.empty colliding_files))) =
       [''models/clothing/Shirt.glb'', ''models/clothing/Shirt.glb'']"
proof -
  have mem: "(''clothing/a/Shirt.fbx'', export_only_runs) \<in> set colliding_files"
    by (simp add: colliding_files_def)
  have ne: "''clothing/a/Shirt.fbx'' \<noteq> ''clothing/b/Shirt.fbx''"
    by simp
  have converted: "(''clothing/a/Shirt.fbx'', export_only_runs) \<in> set colliding_files
      \<and> \<not> should_skip ''clothing/a/Shirt.fbx'' \<and> convert_fbx_to_glb (export_run export_only_runs)"
    using mem colliding_facts(5,6) by blast
  have same: "path_stem (path_name ''clothing/a/Shirt.fbx'')
        = path_stem (path_name ''clothing/b/Shirt.fbx'')
      \<and> categorize ''clothing/a/Shirt.fbx'' = categorize ''clothing/b/Shirt.fbx''"
    by (simp only: colliding_facts(1-4))
  note inst = entry_id_and_file
    [of Map.empty "''clothing/a/Shirt.fbx''" export_only_runs colliding_files "''clothing/b/Shirt.fbx''"
      export_only_runs]
  have in_manifest: "build_entry Map.empty ''clothing/a/Shirt.fbx'' export_only_runs
       \<in> set (all_entries (manifest (main Map.empty colliding_files)))"
    using inst [THEN conjunct2, THEN conjunct2, THEN conjunct1] converted by (rule mp)
  have collide: "entry_id (build_entry Map.empty ''clothing/a/Shirt.fbx'' export_only_runs) =
       entry_id (build_entry Map.empty ''clothing/b/Shirt.fbx'' export_only_runs)
     \<and> entry_file (build_entry Map.empty ''clothing/a/Shirt.fbx'' export_only_runs) =
       entry_file (build_entry Map.empty ''clothing/b/Shirt.fbx'' export_only_runs)"
    using inst [THEN conjunct2, THEN conjunct2, THEN conjunct2] same by (rule mp)
  from ne in_manifest collide colliding_manifest(1) show ?thesis
    by blast
qed

end
